theory Spec2Isabelle
  imports Main "HOL-Library.Sublist"
begin

section \<open>Home library app: a shallow embedding of \<open>library-app/app.js\<close>\<close>

text \<open>
  The app keeps book records in one IndexedDB object store (\<open>keyPath: 'id'\<close>,
  \<open>autoIncrement: true\<close>) and draws its list from \<open>state.books\<close>, which
  \<open>refresh\<close> assigns after every write. Book records are
  plain JavaScript objects; the import path stores whatever JSON it is given, so
  the embedding works on dynamically typed JavaScript values, and a
  \<open>TypeError\<close> of the source is a branch of the model.

  Conventions of the embedding:
  \<^item> numbers are integers (\<open>JSON.parse\<close> also yields fractions; a fraction is a
    truthy number that equals no generated key, as any unused integer is);
  \<^item> strings are ASCII character lists;
  \<^item> an object is the list of its own enumerable properties in creation order;
  \<^item> the clock, the outcome of each database transaction, the date parser and
    \<open>String.prototype.localeCompare\<close> belong to the platform and are taken from
    an environment record.
\<close>

subsection \<open>JavaScript values\<close>

datatype jsval =
    JUndefined
  | JNull
  | JBool bool
  | JNum int
  | JStr string
  | JArr "jsval list"
  | JObj "(string \<times> jsval) list"

type_synonym obj = "(string \<times> jsval) list"

text \<open>ToBoolean: the test of \<open>if (x)\<close>, \<open>x || y\<close>, \<open>x && y\<close> and \<open>!x\<close>.\<close>

fun truthy :: "jsval \<Rightarrow> bool" where
  "truthy JUndefined = False"
| "truthy JNull = False"
| "truthy (JBool b) = b"
| "truthy (JNum n) = (n \<noteq> 0)"
| "truthy (JStr s) = (s \<noteq> [])"
| "truthy (JArr xs) = True"
| "truthy (JObj ps) = True"

text \<open>\<open>x || d\<close>\<close>

definition js_or :: "jsval \<Rightarrow> jsval \<Rightarrow> jsval" where
  "js_or x d = (if truthy x then x else d)"

text \<open>Property read \<open>o.k\<close> on an object: \<open>undefined\<close> when the key is absent.\<close>

definition get_prop :: "obj \<Rightarrow> string \<Rightarrow> jsval" where
  "get_prop ps k = (case map_of ps k of None \<Rightarrow> JUndefined | Some v \<Rightarrow> v)"

text \<open>
  Defining a property, as an object literal or a spread does for each key in turn:
  an existing key keeps its place and takes the new value, a new key goes last.
\<close>

fun set_prop :: "string \<Rightarrow> jsval \<Rightarrow> obj \<Rightarrow> obj" where
  "set_prop k v [] = [(k, v)]"
| "set_prop k v (p # ps) = (if fst p = k then (k, v) # ps else p # set_prop k v ps)"

text \<open>\<open>{...a, ...b}\<close>: the properties of \<open>b\<close> are defined on a copy of \<open>a\<close>, in order.\<close>

definition spread :: "obj \<Rightarrow> obj \<Rightarrow> obj" where
  "spread a b = fold (\<lambda>(k, v). set_prop k v) b a"

text \<open>The rest pattern \<open>{ id, ...rest }\<close>: every own property but \<open>id\<close>.\<close>

definition rest_without :: "string \<Rightarrow> obj \<Rightarrow> obj" where
  "rest_without k ps = filter (\<lambda>p. fst p \<noteq> k) ps"

subsection \<open>Strings\<close>

text \<open>Decimal digits of a natural number, as \<open>String(n)\<close> prints an index.\<close>

fun show_nat :: "nat \<Rightarrow> string" where
  "show_nat n =
     (if n < 10 then [''0123456789'' ! n]
      else show_nat (n div 10) @ [''0123456789'' ! (n mod 10)])"

declare show_nat.simps [simp del]

definition show_int :: "int \<Rightarrow> string" where
  "show_int i = (if i < 0 then CHR ''-'' # show_nat (nat (- i)) else show_nat (nat i))"

text \<open>White space removed by \<open>String.prototype.trim\<close> (the ASCII part).\<close>

definition is_space :: "char \<Rightarrow> bool" where
  "is_space c = (c \<in> set [CHR 0x09, CHR 0x0A, CHR 0x0B, CHR 0x0C, CHR 0x0D, CHR '' ''])"

definition trim :: "string \<Rightarrow> string" where
  "trim s = rev (dropWhile is_space (rev (dropWhile is_space s)))"

text \<open>\<open>toLowerCase\<close> on ASCII: the capital letters go to the small ones.\<close>

definition lower_char :: "char \<Rightarrow> char" where
  "lower_char c =
     (case map_of (zip ''ABCDEFGHIJKLMNOPQRSTUVWXYZ'' ''abcdefghijklmnopqrstuvwxyz'') c of
        Some l \<Rightarrow> l
      | None \<Rightarrow> c)"

definition toLowerCase :: "string \<Rightarrow> string" where
  "toLowerCase s = map lower_char s"

text \<open>\<open>f.includes(q)\<close>: \<open>q\<close> occurs in \<open>f\<close> as a contiguous substring.\<close>

definition includes_str :: "string \<Rightarrow> string \<Rightarrow> bool" where
  "includes_str f q = sublist q f"

definition startsWith :: "string \<Rightarrow> string \<Rightarrow> bool" where
  "startsWith s p = prefix p s"

text \<open>\<open>s.slice(n)\<close> for \<open>0 \<le> n\<close>.\<close>

definition slice_from :: "nat \<Rightarrow> string \<Rightarrow> string" where
  "slice_from n s = drop n s"

text \<open>\<open>s.split(',')\<close>: always at least one piece.\<close>

fun split_on :: "char \<Rightarrow> string \<Rightarrow> string list" where
  "split_on d [] = [[]]"
| "split_on d (c # cs) =
     (if c = d then [] # split_on d cs
      else (case split_on d cs of
              [] \<Rightarrow> [[c]]
            | w # ws \<Rightarrow> (c # w) # ws))"

text \<open>\<open>parts.join(sep)\<close> on strings.\<close>

fun join_strings :: "string \<Rightarrow> string list \<Rightarrow> string" where
  "join_strings sep [] = []"
| "join_strings sep [s] = s"
| "join_strings sep (s # t # ts) = s @ sep @ join_strings sep (t # ts)"

text \<open>
  The string an array element contributes to \<open>Array.prototype.join\<close>:
  \<open>undefined\<close> and \<open>null\<close> give the empty string, everything else its
  \<open>ToString\<close> (a nested array is joined with a comma).
\<close>

fun join_elem :: "jsval \<Rightarrow> string" where
  "join_elem JUndefined = []"
| "join_elem JNull = []"
| "join_elem (JBool b) = (if b then ''true'' else ''false'')"
| "join_elem (JNum n) = show_int n"
| "join_elem (JStr s) = s"
| "join_elem (JArr xs) = join_strings '','' (map join_elem xs)"
| "join_elem (JObj ps) = ''[object Object]''"

subsection \<open>Platform: errors, environment, state\<close>

datatype error =
    InvalidFormat  \<comment> \<open>\<open>new Error('Invalid format')\<close>\<close>
  | TypeError      \<comment> \<open>calling a method a value does not have\<close>
  | StorageError   \<comment> \<open>the transaction did not commit\<close>
  | DataError      \<comment> \<open>the value at the key path is not a valid key\<close>
  | ConstraintError  \<comment> \<open>\<open>add\<close> with a key that is already stored\<close>

text \<open>How an event handler ends.\<close>

datatype outcome =
    Done          \<comment> \<open>ran to its last statement\<close>
  | Refused       \<comment> \<open>an early \<open>return\<close>: nothing to act on, or a required field is empty\<close>
  | Thrown error  \<comment> \<open>an exception: caught by \<open>importData\<close>, a rejected promise elsewhere\<close>

record env =
  isoNow :: "nat \<Rightarrow> string"
    \<comment> \<open>the result of the \<open>n\<close>-th \<open>new Date().toISOString()\<close>\<close>
  commits :: "nat \<Rightarrow> bool"
    \<comment> \<open>whether the \<open>n\<close>-th transaction completes\<close>
  dateISO :: "string \<Rightarrow> string"
    \<comment> \<open>\<open>new Date(v).toISOString()\<close> of a date input's value\<close>
  localeCompare :: "string \<Rightarrow> string \<Rightarrow> int"
    \<comment> \<open>\<open>a.localeCompare(b, undefined, { sensitivity: 'base' })\<close>\<close>

record world =
  db :: "(int \<times> obj) list"   \<comment> \<open>the object store: records by key, in key order\<close>
  nextKey :: int               \<comment> \<open>the key generator's current number\<close>
  books :: "obj list"          \<comment> \<open>the array in \<open>state.books\<close>\<close>
  request :: bool
    \<comment> \<open>\<open>state.books\<close> holds an \<open>IDBRequest\<close> in place of an array (and \<open>books\<close> is empty)\<close>
  txs :: nat                   \<comment> \<open>transactions opened so far\<close>
  ticks :: nat                 \<comment> \<open>clock readings taken so far\<close>

text \<open>The state when the script has run: an empty store, \<open>state.books = []\<close>.\<close>

definition initial :: world where
  "initial = \<lparr> db = [], nextKey = 1, books = [], request = False, txs = 0, ticks = 0 \<rparr>"

text \<open>\<open>new Date().toISOString()\<close>\<close>

definition nowISO :: "env \<Rightarrow> world \<Rightarrow> string \<times> world" where
  "nowISO e w = (isoNow e (ticks w), w\<lparr>ticks := Suc (ticks w)\<rparr>)"

subsection \<open>The store (\<open>dbAPI\<close>)\<close>

text \<open>
  Modelled from the spec: the database engine behind \<open>dbAPI\<close> (IndexedDB) is not
  part of the repository. Section 4.1 of the specification gives its contract:
  \<open>add\<close> assigns a new unique id and persists the record, \<open>put\<close> inserts or
  replaces by id, \<open>delete\<close> removes and is silent on a missing id, \<open>getAll\<close>
  reads every record, and each call is one transaction that either commits or
  fails with no partial state visible. The object store is created with
  \<open>keyPath: 'id'\<close> and \<open>autoIncrement: true\<close>: the key is the record's own
  \<open>id\<close>, generated from \<open>nextKey\<close> when the record has none.
  Keys are numbers; the app writes no other: every \<open>id\<close> it passes is
  \<open>undefined\<close>, a \<open>Number(...)\<close> or an id read back from the store.

  The wrapper \<open>withStore\<close> is the repository's own and is modelled from its
  source. It opens a transaction, evaluates \<open>await fn(store)\<close>, awaits the
  completion of the transaction and returns what the first \<open>await\<close> gave. Each
  \<open>fn\<close> of \<open>dbAPI\<close> returns the engine's \<open>IDBRequest\<close>. A request is not a
  promise, so \<open>await\<close> yields the request itself, and every function of
  \<open>dbAPI\<close> resolves to a request object, never to the request's result
  (\<open>openDB\<close>, a few lines above, does resolve with \<open>req.result\<close> from
  \<open>onsuccess\<close>). The callers of \<open>add\<close>, \<open>put\<close> and \<open>delete\<close> drop the
  resolved value, so the model keeps for them only the key that was written; the
  callers of \<open>getAll\<close> use the resolved value as the array of the records.
\<close>

fun upsert :: "int \<Rightarrow> obj \<Rightarrow> (int \<times> obj) list \<Rightarrow> (int \<times> obj) list" where
  "upsert k b [] = [(k, b)]"
| "upsert k b (r # rs) =
     (if fst r = k then (k, b) # rs
      else if k < fst r then (k, b) # r # rs
      else r # upsert k b rs)"

definition opened :: "world \<Rightarrow> world" where
  "opened w = w\<lparr>txs := Suc (txs w)\<rparr>"

definition dbAPI_add :: "env \<Rightarrow> obj \<Rightarrow> world \<Rightarrow> (error + jsval) \<times> world" where
  "dbAPI_add e book w =
     (if \<not> commits e (txs w) then (Inl StorageError, opened w)
      else case get_prop book ''id'' of
        JUndefined \<Rightarrow>
          (Inr (JNum (nextKey w)),
           opened (w\<lparr>db := upsert (nextKey w) (set_prop ''id'' (JNum (nextKey w)) book) (db w),
                      nextKey := nextKey w + 1\<rparr>))
      | JNum k \<Rightarrow>
          (if k \<in> fst ` set (db w) then (Inl ConstraintError, opened w)
           else (Inr (JNum k),
                 opened (w\<lparr>db := upsert k book (db w),
                            nextKey := max (nextKey w) (k + 1)\<rparr>)))
      | _ \<Rightarrow> (Inl DataError, opened w))"

definition dbAPI_put :: "env \<Rightarrow> obj \<Rightarrow> world \<Rightarrow> (error + jsval) \<times> world" where
  "dbAPI_put e book w =
     (if \<not> commits e (txs w) then (Inl StorageError, opened w)
      else case get_prop book ''id'' of
        JUndefined \<Rightarrow>
          (Inr (JNum (nextKey w)),
           opened (w\<lparr>db := upsert (nextKey w) (set_prop ''id'' (JNum (nextKey w)) book) (db w),
                      nextKey := nextKey w + 1\<rparr>))
      | JNum k \<Rightarrow>
          (Inr (JNum k),
           opened (w\<lparr>db := upsert k book (db w), nextKey := max (nextKey w) (k + 1)\<rparr>))
      | _ \<Rightarrow> (Inl DataError, opened w))"

definition dbAPI_delete :: "env \<Rightarrow> jsval \<Rightarrow> world \<Rightarrow> (error + unit) \<times> world" where
  "dbAPI_delete e key w =
     (if \<not> commits e (txs w) then (Inl StorageError, opened w)
      else case key of
        JNum k \<Rightarrow> (Inr (), opened (w\<lparr>db := filter (\<lambda>r. fst r \<noteq> k) (db w)\<rparr>))
      | _ \<Rightarrow> (Inl DataError, opened w))"

text \<open>
  What a caller of \<open>getAll\<close> can hold in its hand: an array of records, or a
  request object whose \<open>result\<close> attribute holds the records that were read.
\<close>

datatype fetched =
    Records "obj list"   \<comment> \<open>an array of records\<close>
  | Request "obj list"   \<comment> \<open>an \<open>IDBRequest\<close>; the argument is its \<open>result\<close>\<close>

text \<open>
  \<open>dbAPI.getAll()\<close>: \<open>withStore('readonly', s => s.getAll())\<close>. The read-only
  transaction completes or fails; when it completes, the promise resolves to the
  request that \<open>s.getAll()\<close> returned.
\<close>

definition dbAPI_getAll :: "env \<Rightarrow> world \<Rightarrow> (error + fetched) \<times> world" where
  "dbAPI_getAll e w =
     (if \<not> commits e (txs w) then (Inl StorageError, opened w)
      else (Inr (Request (map snd (db w))), opened w))"

text \<open>
  \<open>refresh\<close>: the assignment \<open>state.books = await dbAPI.getAll()\<close>, then
  \<open>renderRoomsFilter()\<close> and \<open>renderList()\<close>. The first step of
  \<open>renderRoomsFilter\<close> is \<open>state.books.map(...)\<close>; a request has no method
  \<open>map\<close>, and the call throws a \<open>TypeError\<close>. What the two functions draw in
  the page from an array is outside the embedding; the list that \<open>renderList\<close>
  computes from an array is \<open>listBooks\<close> below.
\<close>

definition assignBooks :: "fetched \<Rightarrow> world \<Rightarrow> world" where
  "assignBooks got w =
     (case got of
        Records all \<Rightarrow> w\<lparr>books := all, request := False\<rparr>
      | Request res \<Rightarrow> w\<lparr>books := [], request := True\<rparr>)"

definition renderRoomsFilter :: "world \<Rightarrow> error + unit" where
  "renderRoomsFilter w = (if request w then Inl TypeError else Inr ())"

definition refresh :: "env \<Rightarrow> world \<Rightarrow> (error + unit) \<times> world" where
  "refresh e w =
     (case dbAPI_getAll e w of
        (Inl err, w1) \<Rightarrow> (Inl err, w1)
      | (Inr got, w1) \<Rightarrow>
          (let w2 = assignBooks got w1 in
           case renderRoomsFilter w2 of
             Inl err \<Rightarrow> (Inl err, w2)
           | Inr _ \<Rightarrow> (Inr (), w2)))"

text \<open>
  The last statement of the handlers that write, \<open>await refresh()\<close>: an
  exception of \<open>refresh\<close> is the handler's.
\<close>

definition thenRefresh :: "env \<Rightarrow> world \<Rightarrow> outcome \<times> world" where
  "thenRefresh e w =
     (case refresh e w of
        (Inl err, w1) \<Rightarrow> (Thrown err, w1)
      | (Inr _, w1) \<Rightarrow> (Done, w1))"

text \<open>
  \<open>state.books.find(b => b.id === id)\<close>: a \<open>TypeError\<close> when \<open>state.books\<close>
  is a request, which has no method \<open>find\<close>.
\<close>

definition findBook :: "int \<Rightarrow> world \<Rightarrow> error + obj option" where
  "findBook n w =
     (if request w then Inl TypeError
      else Inr (find (\<lambda>b. get_prop b ''id'' = JNum n) (books w)))"

text \<open>
  Loading the page (\<open>init\<close>): the script starts with \<open>state.books = []\<close>, the
  handlers are wired, and \<open>refresh()\<close> is awaited. The store outlives the page.
\<close>

definition init :: "env \<Rightarrow> world \<Rightarrow> outcome \<times> world" where
  "init e w = thenRefresh e (w\<lparr>books := [], request := False\<rparr>)"

subsection \<open>Listing: \<open>matchesFilters\<close>, \<open>normalizeTitle\<close>, \<open>compareByTitle\<close>\<close>

record filters =
  search :: string
  room :: string
  status :: string

text \<open>\<open>(x || '').toLowerCase()\<close>: a truthy value that is no string has no such method.\<close>

definition lowered :: "jsval \<Rightarrow> error + string" where
  "lowered x =
     (case js_or x (JStr []) of
        JStr s \<Rightarrow> Inr (toLowerCase s)
      | _ \<Rightarrow> Inl TypeError)"

text \<open>\<open>(book.tags || []).join(', ')\<close>\<close>

definition joinedTags :: "obj \<Rightarrow> error + string" where
  "joinedTags book =
     (case js_or (get_prop book ''tags'') (JArr []) of
        JArr ts \<Rightarrow> Inr (join_strings '', '' (map join_elem ts))
      | _ \<Rightarrow> Inl TypeError)"

text \<open>\<open>xs.map(f)\<close> where \<open>f\<close> may throw: the first exception ends the call.\<close>

fun map_err :: "('a \<Rightarrow> error + 'b) \<Rightarrow> 'a list \<Rightarrow> error + 'b list" where
  "map_err f [] = Inr []"
| "map_err f (x # xs) =
     (case f x of
        Inl err \<Rightarrow> Inl err
      | Inr y \<Rightarrow> (case map_err f xs of Inl err \<Rightarrow> Inl err | Inr ys \<Rightarrow> Inr (y # ys)))"

definition matchesFilters :: "filters \<Rightarrow> obj \<Rightarrow> error + bool" where
  "matchesFilters flt book =
     (if room flt \<noteq> [] \<and> js_or (get_prop book ''location'') (JStr []) \<noteq> JStr (room flt)
        then Inr False
      else if status flt \<noteq> []
              \<and> js_or (get_prop book ''status'') (JStr ''available'') \<noteq> JStr (status flt)
        then Inr False
      else if search flt = [] then Inr True
      else
        let q = toLowerCase (search flt) in
        case joinedTags book of
          Inl err \<Rightarrow> Inl err
        | Inr tags \<Rightarrow>
            (case map_err lowered
                    [get_prop book ''title'', get_prop book ''author'',
                     get_prop book ''isbn'', JStr tags] of
               Inl err \<Rightarrow> Inl err
             | Inr fs \<Rightarrow> Inr (\<exists>f \<in> set fs. includes_str f q)))"

definition normalizeTitle :: "jsval \<Rightarrow> error + string" where
  "normalizeTitle t =
     (case js_or t (JStr []) of
        JStr s0 \<Rightarrow>
          (let s = trim s0; low = toLowerCase s in
           if startsWith low ''the '' then Inr (slice_from 4 s)
           else if startsWith low ''a '' then Inr (slice_from 2 s)
           else if startsWith low ''an '' then Inr (slice_from 3 s)
           else Inr s)
      | _ \<Rightarrow> Inl TypeError)"

definition compareByTitle :: "env \<Rightarrow> obj \<Rightarrow> obj \<Rightarrow> error + int" where
  "compareByTitle e a b =
     (case normalizeTitle (get_prop a ''title'') of
        Inl err \<Rightarrow> Inl err
      | Inr ta \<Rightarrow>
          (case normalizeTitle (get_prop b ''title'') of
             Inl err \<Rightarrow> Inl err
           | Inr tb \<Rightarrow>
               if ta = [] \<and> tb = [] then Inr 0
               else if ta = [] then Inr 1
               else if tb = [] then Inr (- 1)
               else Inr (localeCompare e ta tb)))"

text \<open>
  \<open>Array.prototype.sort\<close> is stable; it is modelled as a stable insertion sort:
  each element, from the last to the first, is placed before the first element of
  the sorted tail that the comparator does not put before it.
\<close>

fun insert_by :: "('a \<Rightarrow> 'a \<Rightarrow> error + int) \<Rightarrow> 'a \<Rightarrow> 'a list \<Rightarrow> error + 'a list" where
  "insert_by cmp x [] = Inr [x]"
| "insert_by cmp x (y # ys) =
     (case cmp x y of
        Inl err \<Rightarrow> Inl err
      | Inr c \<Rightarrow>
          if c \<le> 0 then Inr (x # y # ys)
          else (case insert_by cmp x ys of
                  Inl err \<Rightarrow> Inl err
                | Inr zs \<Rightarrow> Inr (y # zs)))"

fun sort_by :: "('a \<Rightarrow> 'a \<Rightarrow> error + int) \<Rightarrow> 'a list \<Rightarrow> error + 'a list" where
  "sort_by cmp [] = Inr []"
| "sort_by cmp (x # xs) =
     (case sort_by cmp xs of
        Inl err \<Rightarrow> Inl err
      | Inr ys \<Rightarrow> insert_by cmp x ys)"

text \<open>\<open>xs.filter(p)\<close> where \<open>p\<close> may throw.\<close>

fun filter_err :: "('a \<Rightarrow> error + bool) \<Rightarrow> 'a list \<Rightarrow> error + 'a list" where
  "filter_err p [] = Inr []"
| "filter_err p (x # xs) =
     (case p x of
        Inl err \<Rightarrow> Inl err
      | Inr keep \<Rightarrow>
          (case filter_err p xs of
             Inl err \<Rightarrow> Inl err
           | Inr ys \<Rightarrow> Inr (if keep then x # ys else ys)))"

text \<open>The list \<open>renderList\<close> computes from the array in \<open>state.books\<close>:
  \<open>state.books.filter(matchesFilters)\<close>, sorted.\<close>

definition listBooks :: "env \<Rightarrow> filters \<Rightarrow> world \<Rightarrow> error + obj list" where
  "listBooks e flt w =
     (case filter_err (matchesFilters flt) (books w) of
        Inl err \<Rightarrow> Inl err
      | Inr filtered \<Rightarrow> sort_by (compareByTitle e) filtered)"

text \<open>
  \<open>renderList\<close>, as far as the list goes. On a request in \<open>state.books\<close> the
  call \<open>state.books.filter(...)\<close> throws a \<open>TypeError\<close>; on an array the
  list is \<open>listBooks\<close>.
\<close>

definition renderList :: "env \<Rightarrow> filters \<Rightarrow> world \<Rightarrow> error + obj list" where
  "renderList e flt w = (if request w then Inl TypeError else listBooks e flt w)"

text \<open>No filter set: the state of \<open>state.filters\<close> when the page is opened.\<close>

definition noFilters :: filters where
  "noFilters = \<lparr> search = [], room = [], status = [] \<rparr>"

text \<open>
  A title that \<open>normalizeTitle\<close> accepts: a string, or a falsy value (absent,
  \<open>null\<close>, \<open>0\<close>, \<open>false\<close>) that \<open>t || ''\<close> replaces by the empty string.
\<close>

definition sortable_title :: "obj \<Rightarrow> bool" where
  "sortable_title b =
     (case js_or (get_prop b ''title'') (JStr []) of JStr s \<Rightarrow> True | _ \<Rightarrow> False)"

text \<open>
  What a theorem about a sorted list asks of the platform's collation: it puts
  the given strings in the given order, whichever of two is asked first.
\<close>

fun collates :: "env \<Rightarrow> string list \<Rightarrow> bool" where
  "collates e [] = True"
| "collates e (s # ss) =
     ((\<forall>t \<in> set ss. localeCompare e s t < 0 \<and> 0 < localeCompare e t s) \<and> collates e ss)"

subsection \<open>Add and edit: the book form's save handler\<close>

definition parseTags :: "string \<Rightarrow> string list" where
  "parseTags s = filter (\<lambda>t. t \<noteq> []) (map trim (split_on CHR '','' s))"

record bookForm =
  f_id :: "int option"
    \<comment> \<open>\<open>form.id.value\<close>: empty (\<open>None\<close>) or the decimal text of a book's id\<close>
  f_title :: string
  f_author :: string
  f_isbn :: string
  f_location :: string
  f_tags :: string
  f_notes :: string
  f_coverUrlPrefill :: string
  f_cover :: "string option option"
    \<comment> \<open>the chosen cover file, if any, and the data URL \<open>fileToDataURL\<close> reads from
        it (\<open>Some None\<close>: the read fails)\<close>

text \<open>
  The click handler of \<open>#saveBookBtn\<close> in \<open>wireBookModal\<close>. With a truthy
  \<open>id\<close> the handler looks the book up in \<open>state.books\<close>: for the cover when
  no file was chosen, and again before \<open>dbAPI.put\<close>.
\<close>

definition saveBook :: "env \<Rightarrow> bookForm \<Rightarrow> world \<Rightarrow> outcome \<times> world" where
  "saveBook e f w =
     (let id = (case f_id f of None \<Rightarrow> JNull | Some n \<Rightarrow> JNum n);
          existing = (case f_id f of None \<Rightarrow> Inr None | Some n \<Rightarrow> findBook n w)
      in
      case (case f_cover f of
              Some r \<Rightarrow> Inr (case r of Some url \<Rightarrow> JStr url | None \<Rightarrow> JNull)
            | None \<Rightarrow>
                if truthy id
                then (case existing of
                        Inl err \<Rightarrow> Inl err
                      | Inr found \<Rightarrow>
                          Inr (js_or (case found of None \<Rightarrow> JUndefined
                                      | Some b \<Rightarrow> get_prop b ''coverUrl'') JNull))
                else Inr (js_or (JStr (f_coverUrlPrefill f)) JNull)) of
        Inl err \<Rightarrow> (Thrown err, w)
      | Inr coverUrl \<Rightarrow>
          (let (now, w1) = nowISO e w;
               book = [(''id'', if id = JNull then JUndefined else id),
                       (''title'', JStr (trim (f_title f))),
                       (''author'', JStr (trim (f_author f))),
                       (''isbn'', JStr (trim (f_isbn f))),
                       (''location'', JStr (trim (f_location f))),
                       (''tags'', JArr (map JStr (parseTags (f_tags f)))),
                       (''notes'', JStr (trim (f_notes f))),
                       (''coverUrl'', coverUrl)]
           in
           if \<not> truthy (get_prop book ''title'') then (Refused, w1)
           else if truthy id
           then (case existing of
                   Inl err \<Rightarrow> (Thrown err, w1)
                 | Inr found \<Rightarrow>
                     (case dbAPI_put e
                             (spread (spread (case found of None \<Rightarrow> [] | Some b \<Rightarrow> b) book)
                                [(''updatedAt'', JStr now)]) w1 of
                        (Inl err, w2) \<Rightarrow> (Thrown err, w2)
                      | (Inr _, w2) \<Rightarrow> thenRefresh e w2))
           else (case dbAPI_add e
                        (spread book
                           [(''status'', JStr ''available''),
                            (''createdAt'', JStr now), (''updatedAt'', JStr now)]) w1 of
                   (Inl err, w2) \<Rightarrow> (Thrown err, w2)
                 | (Inr _, w2) \<Rightarrow> thenRefresh e w2)))"

subsection \<open>Lend, return, delete\<close>

record lendForm =
  l_id :: int   \<comment> \<open>\<open>Number(form.id.value)\<close>\<close>
  l_lentTo :: string
  l_lendDate :: string
  l_dueDate :: string

text \<open>The click handler of \<open>#confirmLendBtn\<close> in \<open>wireLendModal\<close>.\<close>

definition confirmLend :: "env \<Rightarrow> lendForm \<Rightarrow> world \<Rightarrow> outcome \<times> world" where
  "confirmLend e f w =
     (case findBook (l_id f) w of
        Inl err \<Rightarrow> (Thrown err, w)
      | Inr None \<Rightarrow> (Refused, w)
      | Inr (Some book) \<Rightarrow>
          let lentTo = trim (l_lentTo f) in
          if lentTo = [] then (Refused, w)
          else
            let lendDate = (if l_lendDate f \<noteq> [] then JStr (dateISO e (l_lendDate f)) else JNull);
                dueDate = (if l_dueDate f \<noteq> [] then JStr (dateISO e (l_dueDate f)) else JNull);
                (now, w1) = nowISO e w
            in
            case dbAPI_put e
                   (spread book
                      [(''status'', JStr ''lent''), (''lentTo'', JStr lentTo),
                       (''lendDate'', lendDate), (''dueDate'', dueDate),
                       (''updatedAt'', JStr now)]) w1 of
              (Inl err, w2) \<Rightarrow> (Thrown err, w2)
            | (Inr _, w2) \<Rightarrow> thenRefresh e w2)"

definition returnBook :: "env \<Rightarrow> obj \<Rightarrow> world \<Rightarrow> outcome \<times> world" where
  "returnBook e book w =
     (let (now, w1) = nowISO e w in
      case dbAPI_put e
             (spread book
                [(''status'', JStr ''available''), (''lentTo'', JNull),
                 (''lendDate'', JNull), (''dueDate'', JNull),
                 (''updatedAt'', JStr now)]) w1 of
        (Inl err, w2) \<Rightarrow> (Thrown err, w2)
      | (Inr _, w2) \<Rightarrow> thenRefresh e w2)"

text \<open>\<open>deleteBook\<close>; \<open>ok\<close> is the answer to the \<open>confirm\<close> dialog.\<close>

definition deleteBook :: "env \<Rightarrow> bool \<Rightarrow> obj \<Rightarrow> world \<Rightarrow> outcome \<times> world" where
  "deleteBook e ok book w =
     (if \<not> ok then (Refused, w)
      else
        case dbAPI_delete e (get_prop book ''id'') w of
          (Inl err, w1) \<Rightarrow> (Thrown err, w1)
        | (Inr _, w1) \<Rightarrow> thenRefresh e w1)"

text \<open>
  The Return and Delete buttons of a row (\<open>wireListActions\<close>): the row carries
  the id, and the book is looked up in \<open>state.books\<close>.
\<close>

definition clickReturn :: "env \<Rightarrow> int \<Rightarrow> world \<Rightarrow> outcome \<times> world" where
  "clickReturn e n w =
     (case findBook n w of
        Inl err \<Rightarrow> (Thrown err, w)
      | Inr None \<Rightarrow> (Refused, w)
      | Inr (Some book) \<Rightarrow> returnBook e book w)"

definition clickDelete :: "env \<Rightarrow> bool \<Rightarrow> int \<Rightarrow> world \<Rightarrow> outcome \<times> world" where
  "clickDelete e ok n w =
     (case findBook n w of
        Inl err \<Rightarrow> (Thrown err, w)
      | Inr None \<Rightarrow> (Refused, w)
      | Inr (Some book) \<Rightarrow> deleteBook e ok book w)"

subsection \<open>Export and import\<close>

text \<open>
  The value \<open>JSON.parse\<close> reads back from \<open>JSON.stringify(v)\<close>: a property whose
  value is \<open>undefined\<close> is left out, \<open>undefined\<close> in an array becomes \<open>null\<close>.
\<close>

fun json_of :: "jsval \<Rightarrow> jsval" where
  "json_of (JArr xs) = JArr (map (\<lambda>x. if x = JUndefined then JNull else json_of x) xs)"
| "json_of (JObj ps) =
     JObj (map (\<lambda>p. (fst p, json_of (snd p))) (filter (\<lambda>p. snd p \<noteq> JUndefined) ps))"
| "json_of v = v"

text \<open>
  \<open>exportData\<close>: the content of the downloaded file, as parsed JSON. A request
  has no enumerable property of its own (its attributes are accessors of the
  prototype) and no \<open>toJSON\<close>, so \<open>JSON.stringify\<close> writes it as \<open>{}\<close>.
\<close>

definition exportData :: "world \<Rightarrow> jsval" where
  "exportData w =
     (if request w then JObj [] else json_of (JArr (map JObj (books w))))"

text \<open>
  The own enumerable properties that the pattern \<open>{ id, ...rest }\<close> sees in a
  value: those of an object, the indices of an array or a string, none otherwise.
\<close>

definition own_props :: "jsval \<Rightarrow> obj" where
  "own_props v =
     (case v of
        JObj ps \<Rightarrow> ps
      | JArr xs \<Rightarrow> zip (map show_nat [0 ..< length xs]) xs
      | JStr s \<Rightarrow> zip (map show_nat [0 ..< length s]) (map (\<lambda>c. JStr [c]) s)
      | _ \<Rightarrow> [])"

text \<open>
  \<open>new Map(entries)\<close> with \<open>has\<close> and \<open>get\<close>: a later entry replaces an earlier
  one with the same key; a key that is an array or an object is found only by the
  same reference, which a freshly parsed value never is.
\<close>

definition is_primitive :: "jsval \<Rightarrow> bool" where
  "is_primitive v = (case v of JArr _ \<Rightarrow> False | JObj _ \<Rightarrow> False | _ \<Rightarrow> True)"

definition map_get :: "(jsval \<times> obj) list \<Rightarrow> jsval \<Rightarrow> obj option" where
  "map_get m k = (if is_primitive k then map_of (rev m) k else None)"

text \<open>
  The two object literals of the loop in \<open>importData\<close>: the one passed to
  \<open>dbAPI.put\<close> when the element's id is found, and the one passed to
  \<open>dbAPI.add\<close> otherwise.
\<close>

definition mergedEntry :: "obj \<Rightarrow> obj \<Rightarrow> jsval \<Rightarrow> string \<Rightarrow> obj" where
  "mergedEntry existing rest ident now =
     spread (spread existing rest) [(''id'', ident), (''updatedAt'', JStr now)]"

definition newEntry :: "obj \<Rightarrow> string \<Rightarrow> string \<Rightarrow> obj" where
  "newEntry rest created updated =
     spread rest
       [(''status'', js_or (get_prop rest ''status'') (JStr ''available'')),
        (''createdAt'', JStr created), (''updatedAt'', JStr updated)]"

text \<open>The body of the loop, for one element \<open>raw\<close>.\<close>

definition importOne ::
  "env \<Rightarrow> (jsval \<times> obj) list \<Rightarrow> jsval \<Rightarrow> world \<Rightarrow> (error + jsval) \<times> world" where
  "importOne e byId raw w =
     (let src = own_props (js_or raw (JObj []));
          id = get_prop src ''id'';
          rest = rest_without ''id'' src
      in
      case (if truthy id then map_get byId id else None) of
        Some existing \<Rightarrow>
          (let (now, w1) = nowISO e w in
           dbAPI_put e (mergedEntry existing rest id now) w1)
      | None \<Rightarrow>
          (let (created, w1) = nowISO e w;
               (updated, w2) = nowISO e w1
           in
           dbAPI_add e (newEntry rest created updated) w2))"

fun importLoop ::
  "env \<Rightarrow> (jsval \<times> obj) list \<Rightarrow> jsval list \<Rightarrow> world \<Rightarrow> (error + unit) \<times> world" where
  "importLoop e byId [] w = (Inr (), w)"
| "importLoop e byId (raw # rs) w =
     (case importOne e byId raw w of
        (Inl err, w1) \<Rightarrow> (Inl err, w1)
      | (Inr _, w1) \<Rightarrow> importLoop e byId rs w1)"

text \<open>
  \<open>(await dbAPI.getAll()).map(b => [b.id, b])\<close>, the entries of the map
  \<open>byId\<close>: a \<open>TypeError\<close> on a request, which has no method \<open>map\<close>.
\<close>

definition idEntries :: "fetched \<Rightarrow> error + (jsval \<times> obj) list" where
  "idEntries got =
     (case got of
        Records all \<Rightarrow> Inr (map (\<lambda>b. (get_prop b ''id'', b)) all)
      | Request res \<Rightarrow> Inl TypeError)"

text \<open>
  \<open>importData\<close> from the point where the file's text has been parsed: \<open>arr\<close> is
  the result of \<open>JSON.parse\<close>. \<open>Done\<close> is the alert \<open>Import complete\<close>,
  \<open>Thrown err\<close> the alert \<open>Failed to import\<close> of the one \<open>catch\<close>.
\<close>

definition importData :: "env \<Rightarrow> jsval \<Rightarrow> world \<Rightarrow> outcome \<times> world" where
  "importData e arr w =
     (case arr of
        JArr elems \<Rightarrow>
          (case dbAPI_getAll e w of
             (Inl err, w1) \<Rightarrow> (Thrown err, w1)
           | (Inr got, w1) \<Rightarrow>
               (case idEntries got of
                  Inl err \<Rightarrow> (Thrown err, w1)
                | Inr byId \<Rightarrow>
                    (case importLoop e byId elems w1 of
                       (Inl err, w2) \<Rightarrow> (Thrown err, w2)
                     | (Inr _, w2) \<Rightarrow> thenRefresh e w2)))
      | _ \<Rightarrow> (Thrown InvalidFormat, w))"

subsection \<open>Sequences of operations\<close>

text \<open>
  What the user can do, one action after the other: load the page, save the
  book form (add or edit), confirm the lend form, press Return or Delete on a
  row, import a file.
\<close>

datatype action =
    Load
  | SaveBook bookForm
  | ConfirmLend lendForm
  | ClickReturn int
  | ClickDelete bool int
  | Import jsval

fun perform :: "env \<Rightarrow> action \<Rightarrow> world \<Rightarrow> world" where
  "perform e Load w = snd (init e w)"
| "perform e (SaveBook f) w = snd (saveBook e f w)"
| "perform e (ConfirmLend f) w = snd (confirmLend e f w)"
| "perform e (ClickReturn n) w = snd (clickReturn e n w)"
| "perform e (ClickDelete ok n) w = snd (clickDelete e ok n w)"
| "perform e (Import arr) w = snd (importData e arr w)"

fun run :: "env \<Rightarrow> action list \<Rightarrow> world \<Rightarrow> world" where
  "run e [] w = w"
| "run e (a # as) w = run e as (perform e a w)"

text \<open>
  The invariant of the data model on one record: \<open>status = lent\<close> exactly when
  \<open>lentTo\<close> is present and non-empty, and with \<open>status = available\<close> the
  three loan fields are absent.
\<close>

definition nonempty_text :: "jsval \<Rightarrow> bool" where
  "nonempty_text v = (case v of JStr s \<Rightarrow> s \<noteq> [] | _ \<Rightarrow> False)"

definition absent :: "jsval \<Rightarrow> bool" where
  "absent v \<longleftrightarrow> v = JUndefined"

definition loan_ok :: "obj \<Rightarrow> bool" where
  "loan_ok b \<longleftrightarrow>
     (get_prop b ''status'' = JStr ''lent'' \<longleftrightarrow> nonempty_text (get_prop b ''lentTo''))
     \<and> (get_prop b ''status'' = JStr ''available'' \<longrightarrow>
          absent (get_prop b ''lentTo'') \<and> absent (get_prop b ''lendDate'')
          \<and> absent (get_prop b ''dueDate''))"

text \<open>
  A record as the book form writes it: not lent, and without loan fields. A
  state in which the store holds such records only and the array of
  \<open>state.books\<close> is empty.
\<close>

definition never_lent :: "obj \<Rightarrow> bool" where
  "never_lent b \<longleftrightarrow>
     get_prop b ''status'' \<noteq> JStr ''lent'' \<and> get_prop b ''lentTo'' = JUndefined
     \<and> get_prop b ''lendDate'' = JUndefined \<and> get_prop b ''dueDate'' = JUndefined"

definition unlent :: "world \<Rightarrow> bool" where
  "unlent w \<longleftrightarrow> books w = [] \<and> (\<forall>r \<in> set (db w). never_lent (snd r))"

subsection \<open>The filter as the specification words it\<close>

text \<open>
  The data model of the specification types a book: \<open>title\<close>, \<open>author\<close> and
  \<open>isbn\<close> are strings or absent, \<open>tags\<close> is a sequence or absent. On such a
  record \<open>spec_matches\<close> states the three filter conditions in the
  specification's words; it is what \<open>matchesFilters\<close> is compared with.
\<close>

definition text_of :: "jsval \<Rightarrow> string" where
  "text_of v = (case v of JStr s \<Rightarrow> s | _ \<Rightarrow> [])"

definition text_field :: "jsval \<Rightarrow> bool" where
  "text_field v = (case v of JStr s \<Rightarrow> True | _ \<Rightarrow> \<not> truthy v)"

definition tag_list :: "jsval \<Rightarrow> bool" where
  "tag_list v = (case v of JArr ts \<Rightarrow> True | _ \<Rightarrow> \<not> truthy v)"

definition tags_of :: "jsval \<Rightarrow> jsval list" where
  "tags_of v = (case v of JArr ts \<Rightarrow> ts | _ \<Rightarrow> [])"

definition well_typed :: "obj \<Rightarrow> bool" where
  "well_typed b \<longleftrightarrow>
     text_field (get_prop b ''title'') \<and> text_field (get_prop b ''author'')
     \<and> text_field (get_prop b ''isbn'') \<and> tag_list (get_prop b ''tags'')"

definition spec_matches :: "filters \<Rightarrow> obj \<Rightarrow> bool" where
  "spec_matches flt b \<longleftrightarrow>
     (room flt \<noteq> [] \<longrightarrow> get_prop b ''location'' = JStr (room flt))
     \<and> (status flt \<noteq> [] \<longrightarrow>
          (if truthy (get_prop b ''status'') then get_prop b ''status'' else JStr ''available'')
            = JStr (status flt))
     \<and> (search flt \<noteq> [] \<longrightarrow>
          (\<exists>fld \<in> set [text_of (get_prop b ''title''), text_of (get_prop b ''author''),
                        text_of (get_prop b ''isbn''),
                        join_strings '', '' (map join_elem (tags_of (get_prop b ''tags'')))].
             sublist (toLowerCase (search flt)) (toLowerCase fld)))"

subsection \<open>Import as the specification words it\<close>

text \<open>
  The specification describes import as returning a summary of
  \<open>{added, merged, failed}\<close>, with a failure of one element caught and tallied
  and the remaining elements still processed. \<open>spec_importLoop\<close> follows these
  words, element by element, on the same loop body; it is what \<open>importLoop\<close> is
  compared with.
\<close>

record summary =
  added :: nat
  merged :: nat
  failed :: nat

fun spec_importLoop ::
  "env \<Rightarrow> (jsval \<times> obj) list \<Rightarrow> jsval list \<Rightarrow> summary \<Rightarrow> world \<Rightarrow> summary \<times> world" where
  "spec_importLoop e byId [] s w = (s, w)"
| "spec_importLoop e byId (raw # rs) s w =
     (case importOne e byId raw w of
        (Inl err, w1) \<Rightarrow> spec_importLoop e byId rs (s\<lparr>failed := Suc (failed s)\<rparr>) w1
      | (Inr _, w1) \<Rightarrow>
          (let id = get_prop (own_props raw) ''id'' in
           if truthy id \<and> map_get byId id \<noteq> None
           then spec_importLoop e byId rs (s\<lparr>merged := Suc (merged s)\<rparr>) w1
           else spec_importLoop e byId rs (s\<lparr>added := Suc (added s)\<rparr>) w1))"

subsection \<open>Sample platforms\<close>

text \<open>
  Concrete environments on which the model is evaluated. The sample collation
  compares the lower-cased strings character by character.
\<close>

fun codeCompare :: "string \<Rightarrow> string \<Rightarrow> int" where
  "codeCompare [] [] = 0"
| "codeCompare [] (y # ys) = - 1"
| "codeCompare (x # xs) [] = 1"
| "codeCompare (x # xs) (y # ys) =
     (if (of_char x :: nat) < of_char y then - 1
      else if (of_char y :: nat) < of_char x then 1
      else codeCompare xs ys)"

text \<open>Transaction number \<open>k\<close> fails when \<open>k\<close> is in \<open>bad\<close>; the clock reads T0, T1, ...\<close>

definition sampleEnv :: "nat list \<Rightarrow> env" where
  "sampleEnv bad =
     \<lparr> isoNow = (\<lambda>n. CHR ''T'' # show_nat n),
       commits = (\<lambda>n. n \<notin> set bad),
       dateISO = (\<lambda>s. s @ ''T00:00:00.000Z''),
       localeCompare = (\<lambda>a b. codeCompare (toLowerCase a) (toLowerCase b)) \<rparr>"

text \<open>
  Sample records and forms. \<open>w_dune\<close> and \<open>w_three\<close> are states in which
  \<open>state.books\<close> is an array that holds the records of the store, one book and
  three books.
\<close>

definition dune :: obj where
  "dune =
     [(''id'', JNum 1), (''title'', JStr ''Dune''), (''author'', JStr ''Herbert''),
      (''isbn'', JStr []), (''location'', JStr ''Hall''),
      (''tags'', JArr [JStr ''sf'']), (''notes'', JStr []),
      (''coverUrl'', JNull), (''status'', JStr ''available''),
      (''createdAt'', JStr ''T0''), (''updatedAt'', JStr ''T0'')]"

definition w_dune :: world where
  "w_dune =
     \<lparr> db = [(1, dune)], nextKey = 2, books = [dune], request = False,
       txs = 2, ticks = 1 \<rparr>"

definition lendAlice :: lendForm where
  "lendAlice =
     \<lparr> l_id = 1, l_lentTo = '' Alice '', l_lendDate = ''2024-05-01'', l_dueDate = [] \<rparr>"

definition formHobbit :: bookForm where
  "formHobbit =
     \<lparr> f_id = None, f_title = '' The Hobbit '', f_author = ''Tolkien'',
       f_isbn = '' 0261102214'', f_location = ''Hall'',
       f_tags = ''fantasy, ,classic,fantasy'', f_notes = [],
       f_coverUrlPrefill = [], f_cover = None \<rparr>"

definition hobbit :: obj where
  "hobbit =
     [(''id'', JNum 2), (''title'', JStr ''The Hobbit''), (''author'', JStr ''Tolkien''),
      (''isbn'', JStr ''0261102214''), (''location'', JStr ''Hall''),
      (''tags'', JArr [JStr ''fantasy'', JStr ''classic'', JStr ''fantasy'']),
      (''notes'', JStr []), (''coverUrl'', JNull), (''status'', JStr ''available''),
      (''createdAt'', JStr ''T1''), (''updatedAt'', JStr ''T1'')]"

definition wizard :: obj where
  "wizard =
     [(''id'', JNum 3), (''title'', JStr ''A Wizard of Earthsea''),
      (''author'', JStr ''Le Guin''), (''isbn'', JStr []), (''location'', JStr ''Study''),
      (''tags'', JArr [JStr ''fantasy'']), (''notes'', JStr []), (''coverUrl'', JNull),
      (''status'', JStr ''lent''), (''createdAt'', JStr ''T2''), (''updatedAt'', JStr ''T3''),
      (''lentTo'', JStr ''Bob''), (''lendDate'', JNull), (''dueDate'', JNull)]"

definition w_three :: world where
  "w_three =
     \<lparr> db = [(1, dune), (2, hobbit), (3, wizard)], nextKey = 4,
       books = [dune, hobbit, wizard], request = False, txs = 8, ticks = 4 \<rparr>"

text \<open>
  The record that the form \<open>formHobbit\<close> stores in an empty store, and the state
  of the page after it was loaded and the form was saved.
\<close>

definition firstHobbit :: obj where
  "firstHobbit =
     [(''id'', JNum 1), (''title'', JStr ''The Hobbit''), (''author'', JStr ''Tolkien''),
      (''isbn'', JStr ''0261102214''), (''location'', JStr ''Hall''),
      (''tags'', JArr [JStr ''fantasy'', JStr ''classic'', JStr ''fantasy'']),
      (''notes'', JStr []), (''coverUrl'', JNull), (''status'', JStr ''available''),
      (''createdAt'', JStr ''T0''), (''updatedAt'', JStr ''T0'')]"

definition w_added :: world where
  "w_added =
     \<lparr> db = [(1, firstHobbit)], nextKey = 2, books = [], request = True,
       txs = 3, ticks = 1 \<rparr>"

text \<open>
  The record \<open>dune\<close> as the lend handler writes it for the form \<open>lendAlice\<close>
  at the clock reading \<open>T1\<close>, the state that the handler leaves when it is
  run in \<open>w_dune\<close>, and the record as \<open>returnBook\<close> then writes it at the
  clock reading \<open>T2\<close>.
\<close>

definition lentDune :: obj where
  "lentDune =
     [(''id'', JNum 1), (''title'', JStr ''Dune''), (''author'', JStr ''Herbert''),
      (''isbn'', JStr []), (''location'', JStr ''Hall''),
      (''tags'', JArr [JStr ''sf'']), (''notes'', JStr []),
      (''coverUrl'', JNull), (''status'', JStr ''lent''),
      (''createdAt'', JStr ''T0''), (''updatedAt'', JStr ''T1''),
      (''lentTo'', JStr ''Alice''), (''lendDate'', JStr ''2024-05-01T00:00:00.000Z''),
      (''dueDate'', JNull)]"

definition w_lent :: world where
  "w_lent =
     \<lparr> db = [(1, lentDune)], nextKey = 2, books = [], request = True,
       txs = 4, ticks = 2 \<rparr>"

definition returnedDune :: obj where
  "returnedDune =
     [(''id'', JNum 1), (''title'', JStr ''Dune''), (''author'', JStr ''Herbert''),
      (''isbn'', JStr []), (''location'', JStr ''Hall''),
      (''tags'', JArr [JStr ''sf'']), (''notes'', JStr []),
      (''coverUrl'', JNull), (''status'', JStr ''available''),
      (''createdAt'', JStr ''T0''), (''updatedAt'', JStr ''T2''),
      (''lentTo'', JNull), (''lendDate'', JNull), (''dueDate'', JNull)]"

section \<open>Properties\<close>

subsection \<open>Objects\<close>

lemma get_prop_Nil [simp]: "get_prop [] k = JUndefined"
  by (simp add: get_prop_def)

lemma get_prop_Cons [simp]:
  "get_prop ((k', v) # ps) k = (if k = k' then v else get_prop ps k)"
  by (simp add: get_prop_def)

lemma get_prop_set_prop [simp]:
  "get_prop (set_prop k v ps) k' = (if k' = k then v else get_prop ps k')"
  by (induction ps) (auto simp: get_prop_def)

lemma get_prop_rest_without [simp]:
  "get_prop (rest_without k ps) k' = (if k' = k then JUndefined else get_prop ps k')"
  by (induction ps) (auto simp: get_prop_def rest_without_def)

lemma spread_Nil [simp]: "spread a [] = a"
  by (simp add: spread_def)

lemma spread_Cons [simp]: "spread a ((k, v) # b) = spread (set_prop k v a) b"
  by (simp add: spread_def)

subsection \<open>The store and \<open>state.books\<close>\<close>

lemma set_upsert: "set (upsert n b rs) \<subseteq> insert (n, b) (set rs)"
  by (induction rs) auto

text \<open>
  \<open>refresh\<close> never returns normally: with the read committed, \<open>state.books\<close>
  is a request and \<open>renderRoomsFilter\<close> throws.
\<close>

lemma refresh_eq:
  "refresh e w =
     (if commits e (txs w)
      then (Inl TypeError, w\<lparr>books := [], request := True, txs := Suc (txs w)\<rparr>)
      else (Inl StorageError, w\<lparr>txs := Suc (txs w)\<rparr>))"
  by (simp add: refresh_def dbAPI_getAll_def assignBooks_def renderRoomsFilter_def opened_def)

lemma thenRefresh_eq:
  "thenRefresh e w =
     (if commits e (txs w)
      then (Thrown TypeError, w\<lparr>books := [], request := True, txs := Suc (txs w)\<rparr>)
      else (Thrown StorageError, w\<lparr>txs := Suc (txs w)\<rparr>))"
  by (simp add: thenRefresh_def refresh_eq)

lemma findBook_empty:
  "books w = [] \<Longrightarrow> findBook n w = (if request w then Inl TypeError else Inr None)"
  by (simp add: findBook_def)

subsection \<open>Import\<close>

text \<open>
  Import of an array ends at \<open>(await dbAPI.getAll()).map\<close>, whatever the
  array holds: one transaction, no clock reading, the store as it was.
\<close>

lemma importData_array:
  "importData e (JArr elems) w =
     (Thrown (if commits e (txs w) then TypeError else StorageError), w\<lparr>txs := Suc (txs w)\<rparr>)"
  by (simp add: importData_def dbAPI_getAll_def idEntries_def opened_def)

lemma importData_db:
  "db (snd (importData e arr w)) = db w \<and> books (snd (importData e arr w)) = books w
   \<and> request (snd (importData e arr w)) = request w"
  by (cases arr) (simp_all add: importData_array, simp_all add: importData_def)

text \<open>A failing element leaves the store as it was.\<close>

lemma dbAPI_add_failure:
  "dbAPI_add e b w = (Inl err, w') \<Longrightarrow> w' = opened w"
  by (auto simp: dbAPI_add_def split: if_splits jsval.splits)

lemma dbAPI_put_failure:
  "dbAPI_put e b w = (Inl err, w') \<Longrightarrow> w' = opened w"
  by (auto simp: dbAPI_put_def split: if_splits jsval.splits)

lemma importOne_failure:
  assumes "importOne e byId raw w = (Inl err, w')"
  shows "db w' = db w \<and> nextKey w' = nextKey w"
  using assms
  by (auto simp: importOne_def nowISO_def Let_def opened_def
           dest!: dbAPI_add_failure dbAPI_put_failure split: option.splits)

lemma importLoop_append:
  "importLoop e byId (xs @ ys) w =
     (case importLoop e byId xs w of
        (Inl err, w1) \<Rightarrow> (Inl err, w1)
      | (Inr u, w1) \<Rightarrow> importLoop e byId ys w1)"
  by (induction xs arbitrary: w) (auto split: prod.splits sum.splits)

subsection \<open>Sample runs\<close>

lemma loaded_state:
  "perform (sampleEnv []) Load initial =
     \<lparr> db = [], nextKey = 1, books = [], request = True, txs = 1, ticks = 0 \<rparr>"
  by (simp add: init_def thenRefresh_eq initial_def sampleEnv_def)

lemma added_state: "run (sampleEnv []) [Load, SaveBook formHobbit] initial = w_added"
  by (simp add: init_def thenRefresh_eq saveBook_def formHobbit_def initial_def sampleEnv_def
        nowISO_def dbAPI_add_def opened_def Let_def js_or_def trim_def is_space_def
        parseTags_def w_added_def firstHobbit_def show_nat.simps)

subsection \<open>Loan fields under the operations\<close>

text \<open>
  The form writes records that are not lent. Lend, Return and Delete look the
  book up in \<open>state.books\<close>, which is the empty array of the script's start or
  a request, and import ends before its loop: none of them writes.
\<close>

lemma never_lent_loan_ok: "never_lent b \<Longrightarrow> loan_ok b"
  by (simp add: never_lent_def loan_ok_def nonempty_text_def absent_def)

lemma never_lent_set_id [simp]: "never_lent (set_prop ''id'' v b) = never_lent b"
  by (simp add: never_lent_def)

lemma never_lent_upsert:
  assumes "\<forall>r \<in> set rs. never_lent (snd r)" and "never_lent b"
  shows "\<forall>r \<in> set (upsert k b rs). never_lent (snd r)"
  using assms set_upsert [of k b rs] by auto

lemma unlent_txs [simp]: "unlent (w\<lparr>txs := t\<rparr>) = unlent w"
  by (simp add: unlent_def)

lemma unlent_ticks [simp]: "unlent (w\<lparr>ticks := t\<rparr>) = unlent w"
  by (simp add: unlent_def)

lemma dbAPI_add_unlent:
  assumes "unlent w" and "never_lent b"
  shows "unlent (snd (dbAPI_add e b w))"
proof -
  have up: "\<forall>r \<in> set (upsert k c (db w)). never_lent (snd r)" if "never_lent c" for k c
    using assms(1) that by (intro never_lent_upsert) (simp_all add: unlent_def)
  show ?thesis
    using assms up [of b] up [of "set_prop ''id'' (JNum (nextKey w)) b"]
    by (simp add: dbAPI_add_def opened_def unlent_def split: jsval.splits)
qed

lemma dbAPI_put_unlent:
  assumes "unlent w" and "never_lent b"
  shows "unlent (snd (dbAPI_put e b w))"
proof -
  have up: "\<forall>r \<in> set (upsert k c (db w)). never_lent (snd r)" if "never_lent c" for k c
    using assms(1) that by (intro never_lent_upsert) (simp_all add: unlent_def)
  show ?thesis
    using assms up [of b] up [of "set_prop ''id'' (JNum (nextKey w)) b"]
    by (simp add: dbAPI_put_def opened_def unlent_def split: jsval.splits)
qed

lemma thenRefresh_unlent: "unlent w \<Longrightarrow> unlent (snd (thenRefresh e w))"
  by (simp add: thenRefresh_eq unlent_def)

lemma write_then_refresh_unlent:
  assumes "unlent (snd res)"
  shows "unlent (snd (case res of (Inl err, w2) \<Rightarrow> (Thrown err, w2)
                      | (Inr v, w2) \<Rightarrow> thenRefresh e w2))"
  using assms by (cases res; cases "fst res") (auto simp: thenRefresh_unlent)

lemma saveBook_unlent:
  assumes "unlent w"
  shows "unlent (snd (saveBook e f w))"
proof -
  have empty: "books w = []" using assms by (simp add: unlent_def)
  have adds: "unlent (snd (dbAPI_add e
                 (spread [(''id'', i), (''title'', t), (''author'', a), (''isbn'', s),
                          (''location'', l), (''tags'', g), (''notes'', n), (''coverUrl'', c)]
                    [(''status'', JStr ''available''), (''createdAt'', JStr now),
                     (''updatedAt'', JStr now)]) (w\<lparr>ticks := k\<rparr>)))"
    for i t a s l g n c now k
    by (rule dbAPI_add_unlent) (simp_all add: assms never_lent_def)
  have puts: "unlent (snd (dbAPI_put e
                 (spread (spread [] [(''id'', i), (''title'', t), (''author'', a), (''isbn'', s),
                          (''location'', l), (''tags'', g), (''notes'', n), (''coverUrl'', c)])
                    [(''updatedAt'', JStr now)]) (w\<lparr>ticks := k\<rparr>)))"
    for i t a s l g n c now k
    by (rule dbAPI_put_unlent) (simp_all add: assms never_lent_def)
  show ?thesis
    using assms
    by (auto simp: saveBook_def Let_def nowISO_def findBook_empty [OF empty]
                   write_then_refresh_unlent adds puts
             simp del: spread_Cons spread_Nil
             split: option.splits sum.splits)
qed

lemma confirmLend_unlent: "unlent w \<Longrightarrow> snd (confirmLend e f w) = w"
  by (simp add: confirmLend_def unlent_def findBook_empty)

lemma clickReturn_unlent: "unlent w \<Longrightarrow> snd (clickReturn e n w) = w"
  by (simp add: clickReturn_def unlent_def findBook_empty)

lemma clickDelete_unlent: "unlent w \<Longrightarrow> snd (clickDelete e ok n w) = w"
  by (simp add: clickDelete_def unlent_def findBook_empty)

lemma importData_unlent: "unlent w \<Longrightarrow> unlent (snd (importData e arr w))"
  using importData_db [of e arr w] by (simp add: unlent_def)

lemma init_unlent: "unlent w \<Longrightarrow> unlent (snd (init e w))"
  by (simp add: init_def thenRefresh_eq unlent_def)

lemma perform_unlent: "unlent w \<Longrightarrow> unlent (perform e a w)"
  by (cases a)
     (simp_all add: init_unlent saveBook_unlent confirmLend_unlent clickReturn_unlent
                    clickDelete_unlent importData_unlent)

lemma run_unlent: "unlent w \<Longrightarrow> unlent (run e acts w)"
  by (induction acts arbitrary: w) (simp_all add: perform_unlent)

lemma unlent_initial: "unlent initial"
  by (simp add: unlent_def initial_def)

subsection \<open>Listing\<close>

lemma matchesFilters_none [simp]: "matchesFilters noFilters b = Inr True"
  by (simp add: matchesFilters_def noFilters_def)

lemma filter_err_all:
  "\<forall>x \<in> set xs. p x = Inr True \<Longrightarrow> filter_err p xs = Inr xs"
  by (induction xs) auto

lemma normalizeTitle_sortable:
  "sortable_title b \<Longrightarrow> \<exists>t. normalizeTitle (get_prop b ''title'') = Inr t"
  by (auto simp: sortable_title_def normalizeTitle_def Let_def split: jsval.splits)

lemma compareByTitle_sortable:
  assumes "sortable_title a" and "sortable_title b"
  shows "\<exists>c. compareByTitle e a b = Inr c"
proof -
  from normalizeTitle_sortable [OF assms(1)] obtain ta
    where ta: "normalizeTitle (get_prop a ''title'') = Inr ta" by blast
  from normalizeTitle_sortable [OF assms(2)] obtain tb
    where tb: "normalizeTitle (get_prop b ''title'') = Inr tb" by blast
  show ?thesis by (simp add: compareByTitle_def ta tb)
qed

lemma insert_by_total:
  assumes "\<forall>y \<in> set ys. \<exists>c. cmp x y = Inr c"
  shows "\<exists>zs. insert_by cmp x ys = Inr zs \<and> set zs = insert x (set ys)"
  using assms
proof (induction ys)
  case Nil
  then show ?case by simp
next
  case (Cons y ys)
  from Cons.prems obtain c where c: "cmp x y = Inr c" by auto
  from Cons.prems have "\<forall>y \<in> set ys. \<exists>c. cmp x y = Inr c" by simp
  with Cons.IH obtain zs
    where zs: "insert_by cmp x ys = Inr zs" "set zs = insert x (set ys)" by blast
  show ?case
    using c zs by auto
qed

lemma sort_by_total:
  assumes "\<forall>x \<in> set xs. \<forall>y \<in> set xs. \<exists>c. cmp x y = Inr c"
  shows "\<exists>ys. sort_by cmp xs = Inr ys \<and> set ys = set xs"
  using assms
proof (induction xs)
  case Nil
  then show ?case by simp
next
  case (Cons x xs)
  from Cons.prems have "\<forall>a \<in> set xs. \<forall>b \<in> set xs. \<exists>c. cmp a b = Inr c" by simp
  with Cons.IH obtain ys
    where ys: "sort_by cmp xs = Inr ys" "set ys = set xs" by blast
  from Cons.prems ys(2) have "\<forall>y \<in> set ys. \<exists>c. cmp x y = Inr c" by simp
  with insert_by_total [of ys cmp x] obtain zs
    where zs: "insert_by cmp x ys = Inr zs" "set zs = insert x (set ys)" by blast
  show ?case
    using ys zs by simp
qed
lemma lowered_text:
  "text_field v \<Longrightarrow> lowered v = Inr (toLowerCase (text_of v))"
  by (cases v) (auto simp: lowered_def text_field_def text_of_def js_or_def toLowerCase_def)

lemma joinedTags_list:
  "tag_list (get_prop b ''tags'') \<Longrightarrow>
     joinedTags b = Inr (join_strings '', '' (map join_elem (tags_of (get_prop b ''tags''))))"
  by (cases "get_prop b ''tags''") (auto simp: joinedTags_def tag_list_def tags_of_def js_or_def)

lemma matchesFilters_well_typed:
  assumes "well_typed b"
  shows "matchesFilters flt b = Inr (spec_matches flt b)"
proof -
  have t: "lowered (get_prop b ''title'') = Inr (toLowerCase (text_of (get_prop b ''title'')))"
    and a: "lowered (get_prop b ''author'') = Inr (toLowerCase (text_of (get_prop b ''author'')))"
    and i: "lowered (get_prop b ''isbn'') = Inr (toLowerCase (text_of (get_prop b ''isbn'')))"
    and g: "joinedTags b = Inr (join_strings '', '' (map join_elem (tags_of (get_prop b ''tags''))))"
    using assms by (simp_all add: well_typed_def lowered_text joinedTags_list)
  have j: "lowered (JStr s) = Inr (toLowerCase s)" for s
    by (simp add: lowered_def js_or_def toLowerCase_def)
  have loc: "js_or (get_prop b ''location'') (JStr []) \<noteq> JStr (room flt)
             \<longleftrightarrow> get_prop b ''location'' \<noteq> JStr (room flt)" if "room flt \<noteq> []"
    using that by (cases "get_prop b ''location''") (auto simp: js_or_def)
  show ?thesis
    by (auto simp: matchesFilters_def spec_matches_def Let_def t a i g j loc js_or_def
                   includes_str_def)
qed


lemma filter_err_pred:
  "\<forall>x \<in> set xs. p x = Inr (q x) \<Longrightarrow> filter_err p xs = Inr (filter q xs)"
  by (induction xs) auto

lemma well_typed_sortable: "well_typed b \<Longrightarrow> sortable_title b"
  by (cases "get_prop b ''title''")
     (auto simp: well_typed_def text_field_def sortable_title_def js_or_def)

subsection \<open>Titles\<close>

lemma toLowerCase_append: "toLowerCase (xs @ ys) = toLowerCase xs @ toLowerCase ys"
  by (simp add: toLowerCase_def)

lemma toLowerCase_length: "length (toLowerCase xs) = length xs"
  by (simp add: toLowerCase_def)

lemma normalizeTitle_article:
  assumes "toLowerCase art \<in> {''the '', ''a '', ''an ''}"
      and "trim (art @ rest) = art @ rest"
  shows "normalizeTitle (JStr (art @ rest)) = Inr rest"
proof -
  have nonempty: "art @ rest \<noteq> []"
    using assms(1) by (auto simp: toLowerCase_def)
  have low: "toLowerCase (art @ rest) = toLowerCase art @ toLowerCase rest"
    by (rule toLowerCase_append)
  from assms(1) consider "toLowerCase art = ''the ''" | "toLowerCase art = ''a ''"
    | "toLowerCase art = ''an ''" by auto
  then show ?thesis
  proof cases
    case 1
    then have "length art = 4" using toLowerCase_length [of art] by simp
    with 1 nonempty show ?thesis
      by (simp add: normalizeTitle_def js_or_def assms(2) low startsWith_def slice_from_def)
  next
    case 2
    then have "length art = 2" using toLowerCase_length [of art] by simp
    with 2 nonempty show ?thesis
      by (simp add: normalizeTitle_def js_or_def assms(2) low startsWith_def slice_from_def)
  next
    case 3
    then have "length art = 3" using toLowerCase_length [of art] by simp
    with 3 nonempty show ?thesis
      by (simp add: normalizeTitle_def js_or_def assms(2) low startsWith_def slice_from_def)
  qed
qed

lemma compareByTitle_normalized:
  assumes "normalizeTitle (get_prop a ''title'') = Inr ta"
      and "normalizeTitle (get_prop b ''title'') = Inr tb"
  shows "compareByTitle e a b =
           Inr (if ta = [] \<and> tb = [] then 0
                else if ta = [] then 1
                else if tb = [] then - 1
                else localeCompare e ta tb)"
  using assms by (simp add: compareByTitle_def)

lemma normalized_samples:
  "normalizeTitle (get_prop hobbit ''title'') = Inr ''Hobbit''"
  "normalizeTitle (get_prop dune ''title'') = Inr ''Dune''"
  "normalizeTitle (get_prop wizard ''title'') = Inr ''Wizard of Earthsea''"
  by (simp_all add: hobbit_def dune_def wizard_def normalizeTitle_def js_or_def trim_def
                    is_space_def toLowerCase_def lower_char_def startsWith_def slice_from_def)


subsection \<open>Import of something that is not an array\<close>

text \<open>
  Claim C4. For every input that is not an array, import fails with the format
  error (\<open>Invalid format\<close>) and the whole state, the store included, is as
  before: the check comes before the store is read and before any element is
  looked at.
\<close>

theorem import_rejects_non_array:
  assumes "\<forall>elems. arr \<noteq> JArr elems"
  shows "importData e arr w = (Thrown InvalidFormat, w)"
  using assms by (cases arr) (simp_all add: importData_def)

theorem import_rejects_non_array_witness:
  "(\<forall>elems. JObj [(''title'', JStr ''Dune'')] \<noteq> JArr elems)
   \<and> importData (sampleEnv []) (JObj [(''title'', JStr ''Dune'')]) initial
       = (Thrown InvalidFormat, initial)"
  using import_rejects_non_array
          [of "JObj [(''title'', JStr ''Dune'')]" "sampleEnv []" initial]
  by simp

subsection \<open>A failing element during import\<close>




subsection \<open>Import of elements whose id matches no record\<close>

text \<open>
  Claim C5 has an element whose id matches no record inserted as a new record
  under a fresh id. At the element \<open>{id: 9999, title: "X"}\<close>, imported into the
  freshly loaded page, \<open>importData\<close> reads the store, calls \<open>map\<close> on the
  request that \<open>dbAPI.getAll\<close> resolved to, and ends in the failure alert with
  a \<open>TypeError\<close>: one transaction, no clock reading, nothing stored. The body
  of the loop, run on that element with the map of an empty store, does drop
  the id \<open>9999\<close> and insert the element under the generated id \<open>1\<close>, with
  \<open>status\<close> set to \<open>available\<close> and fresh stamps: the insert is what the code
  sets out to do, and the read before the loop is where it fails.
\<close>

theorem import_unmatched_id_code:
  "importData (sampleEnv [])
     (JArr [JObj [(''id'', JNum 9999), (''title'', JStr ''X'')]])
     (perform (sampleEnv []) Load initial) =
     (Thrown TypeError,
      \<lparr> db = [], nextKey = 1, books = [], request = True, txs = 2, ticks = 0 \<rparr>)
   \<and> importOne (sampleEnv []) [] (JObj [(''id'', JNum 9999), (''title'', JStr ''X'')]) initial =
     (Inr (JNum 1),
      \<lparr> db = [(1, [(''title'', JStr ''X''), (''status'', JStr ''available''),
                    (''createdAt'', JStr ''T0''), (''updatedAt'', JStr ''T1''),
                    (''id'', JNum 1)])],
         nextKey = 2, books = [], request = False, txs = 1, ticks = 2 \<rparr>)"
  unfolding loaded_state
  by (simp add: importData_array importOne_def dbAPI_add_def
                opened_def nowISO_def initial_def sampleEnv_def own_props_def map_get_def
                is_primitive_def newEntry_def rest_without_def js_or_def show_nat.simps)

subsection \<open>Import of elements that carry no usable id\<close>

text \<open>
  Claim C10 has \<open>import([null])\<close> succeed and insert a record. Imported into
  the freshly loaded page, the array \<open>[null]\<close> ends in the failure alert with
  a \<open>TypeError\<close>, as every array does, and nothing is stored. The body of the
  loop, run on \<open>null\<close>, raises no error and inserts a record with status
  \<open>available\<close>, fresh stamps and no title; run on an element with the falsy id
  \<open>0\<close> while the map holds a record under \<open>0\<close>, it inserts as well and
  leaves that record alone.
\<close>

theorem import_null_element_code:
  "importData (sampleEnv []) (JArr [JNull]) (perform (sampleEnv []) Load initial) =
     (Thrown TypeError,
      \<lparr> db = [], nextKey = 1, books = [], request = True, txs = 2, ticks = 0 \<rparr>)
   \<and> importOne (sampleEnv []) [] JNull initial =
     (Inr (JNum 1),
      \<lparr> db = [(1, [(''status'', JStr ''available''), (''createdAt'', JStr ''T0''),
                    (''updatedAt'', JStr ''T1''), (''id'', JNum 1)])],
         nextKey = 2, books = [], request = False, txs = 1, ticks = 2 \<rparr>)
   \<and> importOne (sampleEnv [])
       [(JNum 0, [(''id'', JNum 0), (''title'', JStr ''Old'')])]
       (JObj [(''id'', JNum 0), (''title'', JStr ''New'')])
       \<lparr> db = [(0, [(''id'', JNum 0), (''title'', JStr ''Old'')])], nextKey = 1,
          books = [], request = False, txs = 0, ticks = 0 \<rparr> =
     (Inr (JNum 1),
      \<lparr> db = [(0, [(''id'', JNum 0), (''title'', JStr ''Old'')]),
               (1, [(''title'', JStr ''New''), (''status'', JStr ''available''),
                    (''createdAt'', JStr ''T0''), (''updatedAt'', JStr ''T1''),
                    (''id'', JNum 1)])],
         nextKey = 2, books = [], request = False, txs = 1, ticks = 2 \<rparr>)"
  unfolding loaded_state
  by (simp add: importData_array importOne_def dbAPI_add_def
                opened_def nowISO_def initial_def sampleEnv_def own_props_def map_get_def
                is_primitive_def newEntry_def rest_without_def js_or_def show_nat.simps)

subsection \<open>Export, then import\<close>

text \<open>
  Claim C3 has the export hold every record and its import merge each record
  onto itself, with \<open>updatedAt\<close> advanced. In the state of the page after one
  book was added, \<open>state.books\<close> is a request, the exported file is \<open>{}\<close>
  and holds no record, and its import is refused as \<open>Invalid format\<close>: the
  state is as before, no record is merged and no \<open>updatedAt\<close> is advanced.
  A file that does list the stored record is not merged either: its import
  ends, as the import of every array, with the \<open>TypeError\<close> of the read
  before the loop.
\<close>

theorem export_then_import_code:
  "run (sampleEnv []) [Load, SaveBook formHobbit] initial = w_added
   \<and> exportData w_added = JObj []
   \<and> importData (sampleEnv []) (exportData w_added) w_added = (Thrown InvalidFormat, w_added)
   \<and> importData (sampleEnv []) (JArr [JObj firstHobbit]) w_added =
       (Thrown TypeError,
        \<lparr> db = [(1, firstHobbit)], nextKey = 2, books = [], request = True,
           txs = 4, ticks = 1 \<rparr>)"
  unfolding added_state
  by (simp add: exportData_def importData_def dbAPI_getAll_def idEntries_def opened_def
                w_added_def sampleEnv_def)

subsection \<open>Adding a book\<close>

text \<open>
  Claim C8 has the added record in the next unfiltered list. Saving the form
  \<open>formHobbit\<close> in the freshly loaded page stores the record as the claim
  words it (fields trimmed, the empty tag dropped and the repeated one kept,
  both stamps the one clock reading, status \<open>available\<close>), but the handler ends
  with the \<open>TypeError\<close> of \<open>refresh\<close>, \<open>state.books\<close> is a request, and
  drawing the unfiltered list throws as well: the list does not include the
  record. The same form with a blank title is refused before the store is
  touched.
\<close>

theorem add_book_code:
  "saveBook (sampleEnv []) formHobbit (perform (sampleEnv []) Load initial)
     = (Thrown TypeError, w_added)
   \<and> db w_added = [(1, firstHobbit)]
   \<and> renderList (sampleEnv []) noFilters w_added = Inl TypeError
   \<and> saveBook (sampleEnv []) (formHobbit\<lparr>f_title := ''   ''\<rparr>)
         (perform (sampleEnv []) Load initial) =
       (Refused,
        \<lparr> db = [], nextKey = 1, books = [], request = True, txs = 1, ticks = 1 \<rparr>)"
  unfolding loaded_state
  by (simp add: thenRefresh_eq saveBook_def formHobbit_def sampleEnv_def
        nowISO_def dbAPI_add_def opened_def Let_def js_or_def trim_def is_space_def
        parseTags_def w_added_def firstHobbit_def show_nat.simps renderList_def)

subsection \<open>Lend and return\<close>

text \<open>
  Claim C9 has Lend set \<open>status = lent\<close> and a following Return clear the loan.
  In the state of the page after one book was added, confirming the lend form
  for that book with \<open>lentTo = " Alice "\<close> throws a \<open>TypeError\<close> at
  \<open>state.books.find\<close> and writes nothing; so does Return on its row. The
  record stays \<open>available\<close>. Run where \<open>state.books\<close> is an array that
  holds the book (\<open>w_dune\<close>), the lend handler writes the record as the claim
  words it and ends with the \<open>TypeError\<close> of \<open>refresh\<close>; Return on the
  row then throws at \<open>state.books.find\<close>, and the record stays lent. What
  \<open>returnBook\<close> would write, were it reached, is as the claim words it.
\<close>

theorem lend_then_return_code:
  "run (sampleEnv []) [Load, SaveBook formHobbit] initial = w_added
   \<and> confirmLend (sampleEnv []) lendAlice w_added = (Thrown TypeError, w_added)
   \<and> clickReturn (sampleEnv []) 1 w_added = (Thrown TypeError, w_added)
   \<and> map (\<lambda>r. get_prop (snd r) ''status'') (db w_added) = [JStr ''available'']
   \<and> confirmLend (sampleEnv []) lendAlice w_dune = (Thrown TypeError, w_lent)
   \<and> clickReturn (sampleEnv []) 1 w_lent = (Thrown TypeError, w_lent)
   \<and> returnBook (sampleEnv []) lentDune w_lent =
       (Thrown TypeError,
        \<lparr> db = [(1, returnedDune)], nextKey = 2, books = [], request = True,
           txs = 6, ticks = 3 \<rparr>)"
  unfolding added_state
  by (simp add: confirmLend_def clickReturn_def returnBook_def findBook_def thenRefresh_eq
                dbAPI_put_def opened_def nowISO_def Let_def sampleEnv_def trim_def is_space_def
                lendAlice_def w_added_def firstHobbit_def w_dune_def dune_def w_lent_def
                lentDune_def returnedDune_def show_nat.simps)

subsection \<open>Status and loan fields\<close>



subsection \<open>Which records the list shows\<close>

text \<open>
  Claim C6. For every filter triple and every well-typed record of
  \<open>state.books\<close>, \<open>matchesFilters\<close> returns exactly \<open>spec_matches\<close>: the room
  filter, when non-empty, equals the location; the status filter, when
  non-empty, equals the status, an empty status counting as \<open>available\<close>; the
  search text, when non-empty, is, lower-cased, a substring of the lower-cased
  title, author, isbn or tags joined with \<open>", "\<close>, each taken on its own. The
  list that \<open>renderList\<close> shows holds exactly the records that satisfy it.
\<close>

theorem listed_iff_matches:
  assumes "\<forall>b \<in> set (books w). well_typed b"
  shows "(\<forall>b \<in> set (books w). matchesFilters flt b = Inr (spec_matches flt b))
       \<and> (\<exists>shown. listBooks e flt w = Inr shown
              \<and> set shown = {b \<in> set (books w). spec_matches flt b})"
proof
  show each: "\<forall>b \<in> set (books w). matchesFilters flt b = Inr (spec_matches flt b)"
    using assms matchesFilters_well_typed by blast
  then have kept: "filter_err (matchesFilters flt) (books w)
                   = Inr (filter (spec_matches flt) (books w))"
    by (rule filter_err_pred)
  have "\<forall>x \<in> set (filter (spec_matches flt) (books w)).
          \<forall>y \<in> set (filter (spec_matches flt) (books w)).
            \<exists>c. compareByTitle e x y = Inr c"
    using assms well_typed_sortable compareByTitle_sortable by auto
  with sort_by_total [of "filter (spec_matches flt) (books w)" "compareByTitle e"]
  obtain shown where "sort_by (compareByTitle e) (filter (spec_matches flt) (books w)) = Inr shown"
    "set shown = set (filter (spec_matches flt) (books w))"
    by blast
  then show "\<exists>shown. listBooks e flt w = Inr shown
              \<and> set shown = {b \<in> set (books w). spec_matches flt b}"
    by (simp add: listBooks_def kept)
qed

theorem listed_iff_matches_witness:
  "list_all well_typed (books w_three)
   \<and> matchesFilters \<lparr> search = ''Wizard'', room = [], status = [] \<rparr> wizard = Inr True
   \<and> matchesFilters \<lparr> search = ''Wizard'', room = [], status = [] \<rparr> dune = Inr False
   \<and> matchesFilters \<lparr> search = ''Wizard'', room = [], status = [] \<rparr> hobbit = Inr False
   \<and> (\<exists>shown. listBooks (sampleEnv []) \<lparr> search = ''Wizard'', room = [], status = [] \<rparr> w_three
                  = Inr shown
             \<and> set shown = {wizard})
   \<and> (\<exists>shown. listBooks (sampleEnv []) \<lparr> search = ''an'', room = ''Hall'', status = ''available'' \<rparr>
                  w_three = Inr shown
             \<and> set shown = {hobbit})"
proof -
  let ?q = "\<lparr> search = ''Wizard'', room = [], status = [] \<rparr>"
  let ?r = "\<lparr> search = ''an'', room = ''Hall'', status = ''available'' \<rparr>"
  have typed: "\<forall>b \<in> set (books w_three). well_typed b"
    by (simp add: w_three_def dune_def hobbit_def wizard_def well_typed_def
                  text_field_def tag_list_def)
  have q: "spec_matches ?q wizard" "\<not> spec_matches ?q dune" "\<not> spec_matches ?q hobbit"
    by (simp_all add: spec_matches_def dune_def hobbit_def wizard_def text_of_def tags_of_def
                      toLowerCase_def lower_char_def sublist_code)
  have r: "\<not> spec_matches ?r wizard" "\<not> spec_matches ?r dune" "spec_matches ?r hobbit"
    by (simp_all add: spec_matches_def dune_def hobbit_def wizard_def text_of_def tags_of_def
                      toLowerCase_def lower_char_def sublist_code)
  have members: "wizard \<in> set (books w_three)" "dune \<in> set (books w_three)"
    "hobbit \<in> set (books w_three)" "set (books w_three) = {dune, hobbit, wizard}"
    by (simp_all add: w_three_def)
  note thm_q = listed_iff_matches [OF typed, of ?q "sampleEnv []"]
  note thm_r = listed_iff_matches [OF typed, of ?r "sampleEnv []"]
  have each: "matchesFilters ?q wizard = Inr True" "matchesFilters ?q dune = Inr False"
    "matchesFilters ?q hobbit = Inr False"
    using thm_q members(1-3) q by auto
  have "{b \<in> set (books w_three). spec_matches ?q b} = {wizard}"
    using q members(4) by auto
  with thm_q have shown_q:
    "\<exists>shown. listBooks (sampleEnv []) ?q w_three = Inr shown \<and> set shown = {wizard}"
    by simp
  have "{b \<in> set (books w_three). spec_matches ?r b} = {hobbit}"
    using r members(4) by auto
  with thm_r have shown_r:
    "\<exists>shown. listBooks (sampleEnv []) ?r w_three = Inr shown \<and> set shown = {hobbit}"
    by simp
  from typed have "list_all well_typed (books w_three)"
    by (simp add: list_all_iff)
  with each shown_q shown_r show ?thesis by blast
qed

subsection \<open>The order of the list\<close>




end
